theory Spec2Isabelle
  imports Main
begin

section \<open>JavaScript values used by the handlers\<close>

text \<open>
  The handlers of \<^verbatim>\<open>src/index.js\<close> and of the second server file
  (\<^verbatim>\<open>src/unnamed/part_000\<close>) read strings out of the request, compare them, parse one
  of them with \<^verbatim>\<open>parseInt\<close> and add two numbers. A route parameter or a query value
  is a string or \<^verbatim>\<open>undefined\<close>: \<open>string option\<close>, with \<open>None\<close> for
  \<^verbatim>\<open>undefined\<close>. (A query key that is repeated reaches the handler as an array; that
  shape is not modelled.)

  A number is a mathematical integer or \<^verbatim>\<open>NaN\<close>. The doubles of JavaScript are exact
  on integers up to \<open>2 ^ 53\<close>, which covers every clock reading
  (\<^verbatim>\<open>Date.now()\<close> is an integer number of milliseconds) and every ttl of up to
  fifteen digits.
\<close>

datatype jsnum = Num int | NaN

fun js_add :: "jsnum \<Rightarrow> jsnum \<Rightarrow> jsnum" where
  "js_add (Num a) (Num b) = Num (a + b)"
| "js_add _ _ = NaN"

text \<open>\<^verbatim>\<open>!v\<close> for a value that is a string or \<^verbatim>\<open>undefined\<close>: true for
  \<^verbatim>\<open>undefined\<close> and for the empty string.\<close>

definition js_not :: "string option \<Rightarrow> bool" where
  "js_not v = (case v of None \<Rightarrow> True | Some s \<Rightarrow> s = [])"

text \<open>
  \<^verbatim>\<open>parseInt(string, 10)\<close>: leading white space is skipped, one sign is read, then the
  longest run of decimal digits; no digit gives \<^verbatim>\<open>NaN\<close>, and whatever follows the
  digits is ignored. A \<open>char\<close> stands for a code unit below 256; of the language's white
  space that leaves tab, line feed, vertical tab, form feed, carriage return, space and the
  no-break space U+00A0 (the others lie above 255 and have no \<open>char\<close>). The result is
  the exact integer of the digits; the language rounds it to a double, which changes it only
  above \<open>2 ^ 53\<close>, that is from sixteen digits on.
\<close>

definition StrWhiteSpaceChar :: "char \<Rightarrow> bool" where
  "StrWhiteSpaceChar c \<longleftrightarrow> (of_char c :: nat) \<in> {9, 10, 11, 12, 13, 32, 160}"

definition isDigit :: "char \<Rightarrow> bool" where
  "isDigit c \<longleftrightarrow> 48 \<le> (of_char c :: nat) \<and> (of_char c :: nat) \<le> 57"

definition digitValue :: "char \<Rightarrow> int" where
  "digitValue c = of_char c - 48"

definition parseInt :: "string \<Rightarrow> jsnum" where
  "parseInt inputString =
     (let S = dropWhile StrWhiteSpaceChar inputString;
          sign = (case S of c # _ \<Rightarrow> if c = CHR ''-'' then - 1 else 1 | [] \<Rightarrow> (1::int));
          S' = (case S of c # cs \<Rightarrow> if c = CHR ''+'' \<or> c = CHR ''-'' then cs else S | [] \<Rightarrow> S);
          Z = takeWhile isDigit S'
      in if Z = [] then NaN else Num (sign * foldl (\<lambda>n c. 10 * n + digitValue c) 0 Z))"

section \<open>Requests, responses and the token builders\<close>

text \<open>
  The fields of the request the handlers read: the route parameters of
  \<^verbatim>\<open>/rtc/:channel/:role/:tokentype/:uid\<close>, \<^verbatim>\<open>/rtm/:uid/\<close> and
  \<^verbatim>\<open>/rte/:channel/:role/:tokentype/:uid\<close>, and the query values \<^verbatim>\<open>expiry\<close>,
  \<^verbatim>\<open>channelName\<close> and \<^verbatim>\<open>uid\<close>.
\<close>

record request =
  params_channel :: "string option"
  params_role :: "string option"
  params_tokentype :: "string option"
  params_uid :: "string option"
  query_expiry :: "string option"
  query_channelName :: "string option"
  query_uid :: "string option"

text \<open>\<^verbatim>\<open>process.env.APP_ID\<close> and \<^verbatim>\<open>process.env.APP_CERTIFICATE\<close>, read once when
  the module is loaded; an unset variable is \<^verbatim>\<open>undefined\<close>.\<close>

record env =
  APP_ID :: "string option"
  APP_CERTIFICATE :: "string option"

text \<open>
  The roles are constants of the package \<^verbatim>\<open>agora-access-token\<close>:
  \<^verbatim>\<open>RtcRole.PUBLISHER\<close>, \<^verbatim>\<open>RtcRole.SUBSCRIBER\<close> and \<^verbatim>\<open>RtmRole.Rtm_User\<close>.
  They are kept by name.
\<close>

datatype role = PUBLISHER | SUBSCRIBER | Rtm_User

text \<open>The subject handed to a builder: a string of the request, or the number the second
  server puts in its place.\<close>

datatype subject = UidString string | UidNumber int

text \<open>
  The three entry points of the package, with the arguments in the order of the calls:
  \<^verbatim>\<open>RtcTokenBuilder.buildTokenWithAccount\<close>, \<^verbatim>\<open>RtcTokenBuilder.buildTokenWithUid\<close>
  (app id, certificate, channel, subject, role, expiry) and \<^verbatim>\<open>RtmTokenBuilder.buildToken\<close>
  (app id, certificate, subject, role, expiry).
\<close>

datatype signer_call =
    BuildTokenWithAccount "string option" "string option" string subject role jsnum
  | BuildTokenWithUid "string option" "string option" string subject role jsnum
  | BuildToken "string option" "string option" subject role jsnum

text \<open>The package is outside the repository: a builder is a parameter that returns the token
  string, or \<open>None\<close> when the call throws.\<close>

type_synonym signer = "signer_call \<Rightarrow> string option"

record response =
  headers :: "(string \<times> string) list"
  status :: nat
  body :: "(string \<times> string) list"

text \<open>A handler sends one response, or an exception of a builder leaves it.\<close>

datatype outcome = Sent response | Threw

text \<open>A handler's result: what it did, and the builder calls it made, in order.\<close>

type_synonym result = "outcome \<times> signer_call list"

text \<open>\<^verbatim>\<open>resp.status(code).json({ error: msg })\<close> and \<^verbatim>\<open>resp.json({ ... })\<close>, which
  leaves the status at 200.\<close>

definition status_json :: "(string \<times> string) list \<Rightarrow> nat \<Rightarrow> (string \<times> string) list \<Rightarrow> outcome" where
  "status_json hs code obj = Sent \<lparr>headers = hs, status = code, body = obj\<rparr>"

definition json :: "(string \<times> string) list \<Rightarrow> (string \<times> string) list \<Rightarrow> outcome" where
  "json hs obj = status_json hs 200 obj"

section \<open>The privilege expire time (index.js, lines 71-79, 124-132 and 177-185)\<close>

text \<open>
  The three handlers of index.js hold the same lines:
  \<^verbatim>\<open>
  let expireTime = req.query.expiry;
  if (!expireTime || expireTime === '') { expireTime = 3600; }
  else { expireTime = parseInt(expireTime, 10); }
  const currentTime = Math.floor(Date.now() / 1000);
  const privilegeExpireTime = currentTime + expireTime;
  \<close>
  On a string or \<^verbatim>\<open>undefined\<close> both halves of the test say the same: the value is
  \<^verbatim>\<open>undefined\<close> or empty. The same holds for \<^verbatim>\<open>!uid || uid === ''\<close> in the
  handlers. The clock is a parameter: \<open>now_ms\<close> is the reading of \<^verbatim>\<open>Date.now()\<close>.
\<close>

definition expireTime :: "string option \<Rightarrow> jsnum" where
  "expireTime expiry =
     (case expiry of
        None \<Rightarrow> Num 3600
      | Some s \<Rightarrow> if s = [] then Num 3600 else parseInt s)"

definition currentTime :: "int \<Rightarrow> int" where
  "currentTime now_ms = now_ms div 1000"

definition privilegeExpireTime :: "int \<Rightarrow> string option \<Rightarrow> jsnum" where
  "privilegeExpireTime now_ms expiry = js_add (Num (currentTime now_ms)) (expireTime expiry)"

section \<open>The handlers of index.js\<close>

definition cors_header :: "(string \<times> string) list" where
  "cors_header = [(''Access-Control-Allow-Origin'', ''*'')]"

text \<open>\<^verbatim>\<open>generateRTCToken\<close>, lines 48-105.\<close>

definition generateRTCToken :: "env \<Rightarrow> signer \<Rightarrow> int \<Rightarrow> request \<Rightarrow> result" where
  "generateRTCToken e sign now_ms req =
     (case params_channel req of
        None \<Rightarrow> (status_json cors_header 400 [(''error'', ''channel is required'')], [])
      | Some channelName \<Rightarrow>
        if channelName = [] then (status_json cors_header 400 [(''error'', ''channel is required'')], [])
        else (case params_uid req of
          None \<Rightarrow> (status_json cors_header 400 [(''error'', ''uid is required'')], [])
        | Some uid \<Rightarrow>
          if uid = [] then (status_json cors_header 400 [(''error'', ''uid is required'')], [])
          else (case (if params_role req = Some ''publisher'' then Some PUBLISHER
                      else if params_role req = Some ''audience'' then Some SUBSCRIBER
                      else None) of
            None \<Rightarrow> (status_json cors_header 400 [(''error'', ''role is incorrect'')], [])
          | Some role \<Rightarrow>
            let privilegeExpireTime = privilegeExpireTime now_ms (query_expiry req) in
            if params_tokentype req = Some ''userAccount'' then
              (let c = BuildTokenWithAccount (APP_ID e) (APP_CERTIFICATE e) channelName
                         (UidString uid) role privilegeExpireTime
               in case sign c of
                    None \<Rightarrow> (Threw, [c])
                  | Some token \<Rightarrow> (json cors_header [(''rtcToken'', token)], [c]))
            else if params_tokentype req = Some ''uid'' then
              (let c = BuildTokenWithUid (APP_ID e) (APP_CERTIFICATE e) channelName
                         (UidString uid) role privilegeExpireTime
               in case sign c of
                    None \<Rightarrow> (Threw, [c])
                  | Some token \<Rightarrow> (json cors_header [(''rtcToken'', token)], [c]))
            else (status_json cors_header 400 [(''error'', ''token type is invalid'')], []))))"

text \<open>\<^verbatim>\<open>generateRTMToken\<close>, lines 112-144 (the \<^verbatim>\<open>console.log\<close> of line 134 is
  left out).\<close>

definition generateRTMToken :: "env \<Rightarrow> signer \<Rightarrow> int \<Rightarrow> request \<Rightarrow> result" where
  "generateRTMToken e sign now_ms req =
     (case params_uid req of
        None \<Rightarrow> (status_json cors_header 400 [(''error'', ''uid is required'')], [])
      | Some uid \<Rightarrow>
        if uid = [] then (status_json cors_header 400 [(''error'', ''uid is required'')], [])
        else
          (let role = Rtm_User;
               privilegeExpireTime = privilegeExpireTime now_ms (query_expiry req);
               c = BuildToken (APP_ID e) (APP_CERTIFICATE e) (UidString uid) role privilegeExpireTime
           in case sign c of
                None \<Rightarrow> (Threw, [c])
              | Some token \<Rightarrow> (json cors_header [(''rtmToken'', token)], [c])))"

text \<open>\<^verbatim>\<open>generateRTEToken\<close>, lines 154-204. The handler never reads
  \<^verbatim>\<open>req.params.tokentype\<close>, and line 199 hands the role of lines 168-175 to the
  messaging builder.\<close>

definition generateRTEToken :: "env \<Rightarrow> signer \<Rightarrow> int \<Rightarrow> request \<Rightarrow> result" where
  "generateRTEToken e sign now_ms req =
     (case params_channel req of
        None \<Rightarrow> (status_json cors_header 400 [(''error'', ''channel is required'')], [])
      | Some channelName \<Rightarrow>
        if channelName = [] then (status_json cors_header 400 [(''error'', ''channel is required'')], [])
        else (case params_uid req of
          None \<Rightarrow> (status_json cors_header 400 [(''error'', ''uid is required'')], [])
        | Some uid \<Rightarrow>
          if uid = [] then (status_json cors_header 400 [(''error'', ''uid is required'')], [])
          else (case (if params_role req = Some ''publisher'' then Some PUBLISHER
                      else if params_role req = Some ''audience'' then Some SUBSCRIBER
                      else None) of
            None \<Rightarrow> (status_json cors_header 400 [(''error'', ''role is incorrect'')], [])
          | Some role \<Rightarrow>
            (let privilegeExpireTime = privilegeExpireTime now_ms (query_expiry req);
                 c1 = BuildTokenWithUid (APP_ID e) (APP_CERTIFICATE e) channelName
                        (UidString uid) role privilegeExpireTime;
                 c2 = BuildToken (APP_ID e) (APP_CERTIFICATE e) (UidString uid) role privilegeExpireTime
             in case sign c1 of
                  None \<Rightarrow> (Threw, [c1])
                | Some rtcToken \<Rightarrow>
                  (case sign c2 of
                     None \<Rightarrow> (Threw, [c1, c2])
                   | Some rtmToken \<Rightarrow>
                     (json cors_header [(''rtcToken'', rtcToken), (''rtmToken'', rtmToken)], [c1, c2]))))))"

section \<open>The handler of the second server (src/unnamed/part_000, lines 21-47)\<close>

text \<open>\<^verbatim>\<open>app.get('/rtcToken', ...)\<close>. \<^verbatim>\<open>req.query.uid || 0\<close> is the number 0 when the
  uid is \<^verbatim>\<open>undefined\<close> or empty. The handler sets no header of its own.\<close>

definition rtcToken :: "env \<Rightarrow> signer \<Rightarrow> int \<Rightarrow> request \<Rightarrow> result" where
  "rtcToken e sign now_ms req =
     (case query_channelName req of
        None \<Rightarrow> (status_json [] 400 [(''error'', ''channelName is required'')], [])
      | Some channelName \<Rightarrow>
        if channelName = [] then (status_json [] 400 [(''error'', ''channelName is required'')], [])
        else
          (let uid = (case query_uid req of
                       None \<Rightarrow> UidNumber 0
                     | Some u \<Rightarrow> if u = [] then UidNumber 0 else UidString u);
              role = PUBLISHER;
              expireTime = Num 3600;
              currentTimestamp = Num (now_ms div 1000);
              privilegeExpiredTs = js_add currentTimestamp expireTime
          in if js_not (APP_ID e) \<or> js_not (APP_CERTIFICATE e)
             then (status_json [] 500 [(''error'', ''APP_ID or APP_CERTIFICATE missing'')], [])
             else
               (let c = BuildTokenWithUid (APP_ID e) (APP_CERTIFICATE e) channelName uid role
                          privilegeExpiredTs
                in case sign c of
                     None \<Rightarrow> (Threw, [c])
                   | Some token \<Rightarrow> (json [] [(''token'', token)], [c]))))"

section \<open>Reading a builder call\<close>

fun call_expiry :: "signer_call \<Rightarrow> jsnum" where
  "call_expiry (BuildTokenWithAccount _ _ _ _ _ t) = t"
| "call_expiry (BuildTokenWithUid _ _ _ _ _ t) = t"
| "call_expiry (BuildToken _ _ _ _ t) = t"

fun call_role :: "signer_call \<Rightarrow> role" where
  "call_role (BuildTokenWithAccount _ _ _ _ r _) = r"
| "call_role (BuildTokenWithUid _ _ _ _ r _) = r"
| "call_role (BuildToken _ _ _ r _) = r"

section \<open>The specification's error kinds and validation order\<close>

text \<open>
  The specification names the failures of media composition and fixes the order in which the
  inputs are looked at: channel, subject, role, token type. \<open>violated_preconditions\<close> follows
  those words: every precondition a request violates, in that order. \<open>error_message\<close> is the
  text the handlers send for each kind (index.js, lines 54, 59, 68 and 101).
\<close>

datatype token_error = MissingChannel | MissingSubject | InvalidRole | InvalidTokenType

fun error_message :: "token_error \<Rightarrow> string" where
  "error_message MissingChannel = ''channel is required''"
| "error_message MissingSubject = ''uid is required''"
| "error_message InvalidRole = ''role is incorrect''"
| "error_message InvalidTokenType = ''token type is invalid''"

definition violated_preconditions :: "request \<Rightarrow> token_error list" where
  "violated_preconditions req =
     (if js_not (params_channel req) then [MissingChannel] else []) @
     (if js_not (params_uid req) then [MissingSubject] else []) @
     (if params_role req \<noteq> Some ''publisher'' \<and> params_role req \<noteq> Some ''audience''
      then [InvalidRole] else []) @
     (if params_tokentype req \<noteq> Some ''userAccount'' \<and> params_tokentype req \<noteq> Some ''uid''
      then [InvalidTokenType] else [])"

section \<open>The ttl a caller supplies\<close>

text \<open>
  The specification speaks of the ttl as the value the caller supplied. \<open>supplied_ttl\<close>
  reads a query value as that number: an optional minus sign followed by one to fifteen
  decimal digits denotes its integer; any other text is no number. Fifteen digits stay below
  \<open>2 ^ 53\<close>, where the doubles of the language hold every integer, and every sum with a
  clock reading, exactly.
\<close>

fun digits_value :: "string \<Rightarrow> int" where
  "digits_value [] = 0"
| "digits_value (c # cs) = digitValue c * 10 ^ length cs + digits_value cs"

definition supplied_ttl :: "string \<Rightarrow> int option" where
  "supplied_ttl s =
     (case s of
        [] \<Rightarrow> None
      | c # cs \<Rightarrow>
          let ds = (if c = CHR ''-'' then cs else s) in
          if ds \<noteq> [] \<and> length ds \<le> 15 \<and> list_all isDigit ds
          then Some ((if c = CHR ''-'' then - 1 else 1) * digits_value ds)
          else None)"

section \<open>Example inputs\<close>

text \<open>
  A configured process and one with neither variable set; a builder that returns a token;
  and the request \<^verbatim>\<open>GET /rtc/room1/publisher/uid/42\<close> (the same parameters on
  \<^verbatim>\<open>/rte\<close>, and \<^verbatim>\<open>GET /rtcToken?channelName=room1\<close> on the second server), with no
  \<^verbatim>\<open>expiry\<close>. The clock reads 1700000000123 ms in the examples.
\<close>

definition example_env :: env where
  "example_env = \<lparr>APP_ID = Some ''appid'', APP_CERTIFICATE = Some ''cert''\<rparr>"

definition no_env :: env where
  "no_env = \<lparr>APP_ID = None, APP_CERTIFICATE = None\<rparr>"

definition example_signer :: signer where
  "example_signer c = Some ''token''"

definition example_request :: request where
  "example_request =
     \<lparr>params_channel = Some ''room1'', params_role = Some ''publisher'',
      params_tokentype = Some ''uid'', params_uid = Some ''42'', query_expiry = None,
      query_channelName = Some ''room1'', query_uid = None\<rparr>"

section \<open>Facts shared by the proofs\<close>

lemmas parseInt_eval = parseInt_def StrWhiteSpaceChar_def isDigit_def digitValue_def

lemmas example_eval = example_env_def no_env_def example_signer_def example_request_def

lemma privilegeExpireTime_default:
  "js_not expiry \<Longrightarrow> privilegeExpireTime now_ms expiry = Num (now_ms div 1000 + 3600)"
  by (simp add: privilegeExpireTime_def expireTime_def currentTime_def js_not_def
      split: option.splits)

lemma privilegeExpireTime_parsed:
  "expiry = Some s \<Longrightarrow> s \<noteq> [] \<Longrightarrow> parseInt s = Num t \<Longrightarrow>
     privilegeExpireTime now_ms expiry = Num (now_ms div 1000 + t)"
  by (simp add: privilegeExpireTime_def expireTime_def currentTime_def)

text \<open>On a ttl that \<open>supplied_ttl\<close> reads, \<^verbatim>\<open>parseInt\<close> returns the same integer.\<close>

lemma foldl_digits_value:
  "foldl (\<lambda>n c. 10 * n + digitValue c) a ds = a * 10 ^ length ds + digits_value ds"
  by (induction ds arbitrary: a) (simp_all add: algebra_simps)

lemma takeWhile_digits: "list_all isDigit ds \<Longrightarrow> takeWhile isDigit ds = ds"
  by (induction ds) simp_all

lemma digit_not_space: "isDigit c \<Longrightarrow> \<not> StrWhiteSpaceChar c"
  by (auto simp: isDigit_def StrWhiteSpaceChar_def)

lemma digit_not_sign: "isDigit c \<Longrightarrow> c \<noteq> CHR ''-'' \<and> c \<noteq> CHR ''+''"
  by (auto simp: isDigit_def)

lemma minus_not_space: "\<not> StrWhiteSpaceChar CHR ''-''"
  by (simp add: StrWhiteSpaceChar_def)

lemma parseInt_supplied_ttl:
  assumes "supplied_ttl s = Some t"
  shows "s \<noteq> [] \<and> parseInt s = Num t"
proof (cases s)
  case Nil
  with assms show ?thesis by (simp add: supplied_ttl_def)
next
  case (Cons c cs)
  show ?thesis
  proof (cases "c = CHR ''-''")
    case True
    with Cons assms have ds: "cs \<noteq> []" "list_all isDigit cs" and t: "t = - digits_value cs"
      by (auto simp: supplied_ttl_def Let_def split: if_splits)
    from ds have tw: "takeWhile isDigit cs = cs" by (simp add: takeWhile_digits)
    from Cons True ds(1) t show ?thesis
      by (simp add: parseInt_def Let_def minus_not_space foldl_digits_value tw)
  next
    case False
    with Cons assms have ds: "list_all isDigit (c # cs)" and t: "t = digits_value (c # cs)"
      by (auto simp: supplied_ttl_def Let_def split: if_splits)
    then have c: "isDigit c" by simp
    from ds have tw: "takeWhile isDigit (c # cs) = c # cs" by (rule takeWhile_digits)
    from c have "\<not> StrWhiteSpaceChar c" "c \<noteq> CHR ''-''" "c \<noteq> CHR ''+''"
      by (simp_all add: digit_not_space digit_not_sign)
    then show ?thesis
      unfolding Cons t
      by (simp add: parseInt_def Let_def foldl_digits_value tw
          del: takeWhile.simps digits_value.simps)
  qed
qed

text \<open>The builder calls of each handler of index.js carry the privilege expire time.\<close>

lemma generateRTCToken_call_expiry:
  "c \<in> set (snd (generateRTCToken e sign now_ms req)) \<Longrightarrow>
     call_expiry c = privilegeExpireTime now_ms (query_expiry req)"
  by (auto simp: generateRTCToken_def Let_def split: option.splits if_splits)

lemma generateRTMToken_call_expiry:
  "c \<in> set (snd (generateRTMToken e sign now_ms req)) \<Longrightarrow>
     call_expiry c = privilegeExpireTime now_ms (query_expiry req)"
  by (auto simp: generateRTMToken_def Let_def split: option.splits if_splits)

lemma generateRTEToken_call_expiry:
  "c \<in> set (snd (generateRTEToken e sign now_ms req)) \<Longrightarrow>
     call_expiry c = privilegeExpireTime now_ms (query_expiry req)"
  by (auto simp: generateRTEToken_def Let_def split: option.splits if_splits)

text \<open>A handler of index.js that answers 200 has called a builder.\<close>

lemma generateRTCToken_ok_calls:
  "fst (generateRTCToken e sign now_ms req) = Sent r \<Longrightarrow> status r = 200 \<Longrightarrow>
     snd (generateRTCToken e sign now_ms req) \<noteq> []"
  by (auto simp: generateRTCToken_def Let_def status_json_def json_def
      split: option.splits if_splits)

lemma generateRTMToken_ok_calls:
  "fst (generateRTMToken e sign now_ms req) = Sent r \<Longrightarrow> status r = 200 \<Longrightarrow>
     snd (generateRTMToken e sign now_ms req) \<noteq> []"
  by (auto simp: generateRTMToken_def Let_def status_json_def json_def
      split: option.splits if_splits)

lemma generateRTEToken_ok_calls:
  "fst (generateRTEToken e sign now_ms req) = Sent r \<Longrightarrow> status r = 200 \<Longrightarrow>
     snd (generateRTEToken e sign now_ms req) \<noteq> []"
  by (auto simp: generateRTEToken_def Let_def status_json_def json_def
      split: option.splits if_splits)

text \<open>The messaging handler alone always hands \<^verbatim>\<open>RtmRole.Rtm_User\<close> to its builder
  (index.js, line 122), whatever the request says about a role.\<close>

lemma generateRTMToken_role:
  "map call_role (snd (generateRTMToken e sign now_ms req)) =
     (if js_not (params_uid req) then [] else [Rtm_User])"
  by (auto simp: generateRTMToken_def Let_def js_not_def split: option.splits)

text \<open>The second server checks the credential before it calls the builder (part_000,
  lines 33-35).\<close>

lemma rtcToken_checks_credential:
  "query_channelName req = Some ch \<Longrightarrow> ch \<noteq> [] \<Longrightarrow>
   js_not (APP_ID e) \<or> js_not (APP_CERTIFICATE e) \<Longrightarrow>
     rtcToken e sign now_ms req =
       (status_json [] 500 [(''error'', ''APP_ID or APP_CERTIFICATE missing'')], [])"
  by (auto simp: rtcToken_def Let_def)

section \<open>Claims\<close>

subsection \<open>C1: the role handed to the messaging builder\<close>

text \<open>
  C1. Every messaging issuance, the messaging half of the combined one included, is to hand
  the fixed messaging role to the messaging builder. \<open>generateRTMToken\<close> does
  (\<open>generateRTMToken_role\<close>). \<open>generateRTEToken\<close> does not: at
  \<^verbatim>\<open>GET /rte/room1/audience/uid/42\<close> the call of \<^verbatim>\<open>RtmTokenBuilder.buildToken\<close>
  carries \<^verbatim>\<open>RtcRole.SUBSCRIBER\<close>, the media role of the request.
\<close>

theorem generateRTEToken_messaging_role_is_media_role:
  "snd (generateRTEToken example_env example_signer 1700000000123
          (example_request\<lparr>params_role := Some ''audience''\<rparr>)) =
     [BuildTokenWithUid (Some ''appid'') (Some ''cert'') ''room1'' (UidString ''42'')
        SUBSCRIBER (Num 1700003600),
      BuildToken (Some ''appid'') (Some ''cert'') (UidString ''42'')
        SUBSCRIBER (Num 1700003600)]"
  by (simp add: generateRTEToken_def example_eval Let_def privilegeExpireTime_def
      expireTime_def currentTime_def)

subsection \<open>C2: a missing credential\<close>

text \<open>
  C2. With neither \<^verbatim>\<open>APP_ID\<close> nor \<^verbatim>\<open>APP_CERTIFICATE\<close> set, a composition is to
  report the missing credential and call no builder. The three handlers of index.js hold no
  such check: on the example request each calls its builder with both credentials
  \<^verbatim>\<open>undefined\<close>, and the media and messaging handlers answer with whatever the builder
  returns. Only the second server checks (\<open>rtcToken_checks_credential\<close>).
\<close>

theorem index_handlers_sign_without_credential:
  "generateRTCToken no_env sign 1700000000123 example_request =
     (case sign (BuildTokenWithUid None None ''room1'' (UidString ''42'') PUBLISHER (Num 1700003600)) of
        None \<Rightarrow> (Threw,
          [BuildTokenWithUid None None ''room1'' (UidString ''42'') PUBLISHER (Num 1700003600)])
      | Some token \<Rightarrow> (json cors_header [(''rtcToken'', token)],
          [BuildTokenWithUid None None ''room1'' (UidString ''42'') PUBLISHER (Num 1700003600)])) \<and>
   generateRTMToken no_env sign 1700000000123 example_request =
     (case sign (BuildToken None None (UidString ''42'') Rtm_User (Num 1700003600)) of
        None \<Rightarrow> (Threw, [BuildToken None None (UidString ''42'') Rtm_User (Num 1700003600)])
      | Some token \<Rightarrow> (json cors_header [(''rtmToken'', token)],
          [BuildToken None None (UidString ''42'') Rtm_User (Num 1700003600)])) \<and>
   take 1 (snd (generateRTEToken no_env sign 1700000000123 example_request)) =
     [BuildTokenWithUid None None ''room1'' (UidString ''42'') PUBLISHER (Num 1700003600)]"
  by (simp add: generateRTCToken_def generateRTMToken_def generateRTEToken_def example_eval
      Let_def privilegeExpireTime_def expireTime_def currentTime_def split: option.splits)

subsection \<open>C3: the default ttl\<close>

text \<open>
  C3, as stated, fails: a ttl that is not empty and that \<^verbatim>\<open>parseInt\<close> cannot read gives
  the expiry \<^verbatim>\<open>NaN\<close>, not the issue time plus 3600. At
  \<^verbatim>\<open>GET /rtc/room1/publisher/uid/42?expiry=abc\<close> with the clock at 1700000000123 ms the
  builder receives \<^verbatim>\<open>NaN\<close>.
\<close>

theorem default_ttl_unparseable_counterexample:
  "snd (generateRTCToken example_env example_signer 1700000000123
          (example_request\<lparr>query_expiry := Some ''abc''\<rparr>)) =
     [BuildTokenWithUid (Some ''appid'') (Some ''cert'') ''room1'' (UidString ''42'') PUBLISHER NaN] \<and>
   privilegeExpireTime 1700000000123 (Some ''abc'') \<noteq> Num (1700000000123 div 1000 + 3600)"
  by (simp add: generateRTCToken_def example_eval Let_def privilegeExpireTime_def
      expireTime_def currentTime_def parseInt_eval)

text \<open>
  C3, amended: for every ttl that is omitted or empty, the computed expiry is the issue time
  plus 3600, the issue time being the clock reading in milliseconds divided by 1000 and
  rounded down; and that is the expiry every builder call of the three handlers of index.js
  carries.
\<close>

theorem default_ttl_when_expiry_absent_or_empty:
  assumes "query_expiry req = None \<or> query_expiry req = Some []"
  shows "privilegeExpireTime now_ms (query_expiry req) = Num (now_ms div 1000 + 3600) \<and>
         (\<forall>c \<in> set (snd (generateRTCToken e sign now_ms req))
               \<union> set (snd (generateRTMToken e sign now_ms req))
               \<union> set (snd (generateRTEToken e sign now_ms req)).
            call_expiry c = Num (now_ms div 1000 + 3600))"
proof -
  from assms have absent: "js_not (query_expiry req)"
    by (auto simp: js_not_def)
  then have window: "privilegeExpireTime now_ms (query_expiry req) = Num (now_ms div 1000 + 3600)"
    by (rule privilegeExpireTime_default)
  then show ?thesis
    by (auto simp: generateRTCToken_call_expiry generateRTMToken_call_expiry
        generateRTEToken_call_expiry)
qed

theorem default_ttl_when_expiry_absent_or_empty_witness:
  "(query_expiry (example_request\<lparr>query_expiry := Some []\<rparr>) = None
      \<or> query_expiry (example_request\<lparr>query_expiry := Some []\<rparr>) = Some []) \<and>
   privilegeExpireTime 1700000000123 (Some []) = Num 1700003600 \<and>
   BuildTokenWithUid (Some ''appid'') (Some ''cert'') ''room1'' (UidString ''42'') PUBLISHER
       (Num 1700003600)
     \<in> set (snd (generateRTCToken example_env example_signer 1700000000123
                   (example_request\<lparr>query_expiry := Some []\<rparr>)))"
proof -
  have h: "query_expiry (example_request\<lparr>query_expiry := Some []\<rparr>) = None
      \<or> query_expiry (example_request\<lparr>query_expiry := Some []\<rparr>) = Some []"
    by simp
  have "privilegeExpireTime 1700000000123 (Some []) = Num 1700003600"
    using default_ttl_when_expiry_absent_or_empty
      [OF h, of 1700000000123 example_env example_signer]
    by simp
  then show ?thesis
    by (simp add: generateRTCToken_def example_eval Let_def)
qed

subsection \<open>C4: the combined composition fails as a whole\<close>

text \<open>
  C4. For every combined request whose channel is absent or empty, whose subject is absent or
  empty, or whose role is neither \<^verbatim>\<open>publisher\<close> nor \<^verbatim>\<open>audience\<close>,
  \<open>generateRTEToken\<close> answers 400 with an error and nothing else in the body, and calls
  neither builder.
\<close>

theorem generateRTEToken_fails_atomically:
  assumes "js_not (params_channel req) \<or> js_not (params_uid req)
           \<or> (params_role req \<noteq> Some ''publisher'' \<and> params_role req \<noteq> Some ''audience'')"
  shows "snd (generateRTEToken e sign now_ms req) = [] \<and>
         (\<exists>msg. fst (generateRTEToken e sign now_ms req) =
                  status_json cors_header 400 [(''error'', msg)])"
  using assms by (auto simp: generateRTEToken_def js_not_def split: option.splits)

theorem generateRTEToken_fails_atomically_witness:
  "js_not (params_uid (example_request\<lparr>params_uid := Some []\<rparr>)) \<and>
   snd (generateRTEToken example_env example_signer 1700000000123
          (example_request\<lparr>params_uid := Some []\<rparr>)) = [] \<and>
   fst (generateRTEToken example_env example_signer 1700000000123
          (example_request\<lparr>params_uid := Some []\<rparr>)) =
     status_json cors_header 400 [(''error'', ''uid is required'')]"
proof -
  have h: "js_not (params_uid (example_request\<lparr>params_uid := Some []\<rparr>))"
    by (simp add: js_not_def)
  then have "snd (generateRTEToken example_env example_signer 1700000000123
          (example_request\<lparr>params_uid := Some []\<rparr>)) = []"
    using generateRTEToken_fails_atomically
      [of "example_request\<lparr>params_uid := Some []\<rparr>" example_env example_signer 1700000000123]
    by simp
  with h show ?thesis
    by (simp add: generateRTEToken_def example_request_def)
qed

subsection \<open>C5: the token type selects the builder\<close>

text \<open>
  C5. For every media request with a channel, a subject and a role that pass, the token type
  \<^verbatim>\<open>userAccount\<close> makes \<open>generateRTCToken\<close> call
  \<^verbatim>\<open>buildTokenWithAccount\<close> once and nothing else, \<^verbatim>\<open>uid\<close> makes it call
  \<^verbatim>\<open>buildTokenWithUid\<close> once and nothing else, and any other token type is answered by
  400 \<^verbatim>\<open>token type is invalid\<close> with no builder call.
\<close>

theorem generateRTCToken_tokentype_selects_builder:
  assumes "params_channel req = Some ch" and "ch \<noteq> []"
    and "params_uid req = Some u" and "u \<noteq> []"
    and "params_role req = Some ''publisher'' \<or> params_role req = Some ''audience''"
  shows "(params_tokentype req = Some ''userAccount'' \<longrightarrow>
            snd (generateRTCToken e sign now_ms req) =
              [BuildTokenWithAccount (APP_ID e) (APP_CERTIFICATE e) ch (UidString u)
                 (if params_role req = Some ''publisher'' then PUBLISHER else SUBSCRIBER)
                 (privilegeExpireTime now_ms (query_expiry req))]) \<and>
         (params_tokentype req = Some ''uid'' \<longrightarrow>
            snd (generateRTCToken e sign now_ms req) =
              [BuildTokenWithUid (APP_ID e) (APP_CERTIFICATE e) ch (UidString u)
                 (if params_role req = Some ''publisher'' then PUBLISHER else SUBSCRIBER)
                 (privilegeExpireTime now_ms (query_expiry req))]) \<and>
         (params_tokentype req \<noteq> Some ''userAccount'' \<and> params_tokentype req \<noteq> Some ''uid'' \<longrightarrow>
            generateRTCToken e sign now_ms req =
              (status_json cors_header 400 [(''error'', ''token type is invalid'')], []))"
  using assms by (auto simp: generateRTCToken_def Let_def split: option.splits)

theorem generateRTCToken_tokentype_selects_builder_witness:
  "snd (generateRTCToken example_env example_signer 1700000000123
          (example_request\<lparr>params_tokentype := Some ''userAccount''\<rparr>)) =
     [BuildTokenWithAccount (Some ''appid'') (Some ''cert'') ''room1'' (UidString ''42'')
        PUBLISHER (Num 1700003600)] \<and>
   snd (generateRTCToken example_env example_signer 1700000000123 example_request) =
     [BuildTokenWithUid (Some ''appid'') (Some ''cert'') ''room1'' (UidString ''42'')
        PUBLISHER (Num 1700003600)] \<and>
   generateRTCToken example_env example_signer 1700000000123
       (example_request\<lparr>params_tokentype := Some ''account''\<rparr>) =
     (status_json cors_header 400 [(''error'', ''token type is invalid'')], [])"
proof -
  have window: "privilegeExpireTime 1700000000123 None = Num 1700003600"
    by (simp add: privilegeExpireTime_default js_not_def)
  have account: "snd (generateRTCToken example_env example_signer 1700000000123
          (example_request\<lparr>params_tokentype := Some ''userAccount''\<rparr>)) =
     [BuildTokenWithAccount (Some ''appid'') (Some ''cert'') ''room1'' (UidString ''42'')
        PUBLISHER (Num 1700003600)]"
    using generateRTCToken_tokentype_selects_builder
      [of "example_request\<lparr>params_tokentype := Some ''userAccount''\<rparr>" "''room1''" "''42''"
          example_env example_signer 1700000000123]
    by (simp add: example_request_def example_env_def window)
  have uid: "snd (generateRTCToken example_env example_signer 1700000000123 example_request) =
     [BuildTokenWithUid (Some ''appid'') (Some ''cert'') ''room1'' (UidString ''42'')
        PUBLISHER (Num 1700003600)]"
    using generateRTCToken_tokentype_selects_builder
      [of example_request "''room1''" "''42''" example_env example_signer 1700000000123]
    by (simp add: example_request_def example_env_def window)
  have other: "generateRTCToken example_env example_signer 1700000000123
       (example_request\<lparr>params_tokentype := Some ''account''\<rparr>) =
     (status_json cors_header 400 [(''error'', ''token type is invalid'')], [])"
    using generateRTCToken_tokentype_selects_builder
      [of "example_request\<lparr>params_tokentype := Some ''account''\<rparr>" "''room1''" "''42''"
          example_env example_signer 1700000000123]
    by (simp add: example_request_def)
  from account uid other show ?thesis by simp
qed

subsection \<open>C6: the media roles\<close>

text \<open>
  C6. With a channel and a subject that are not empty, every role other than
  \<^verbatim>\<open>publisher\<close> and \<^verbatim>\<open>audience\<close> (an absent one included) makes
  \<open>generateRTCToken\<close> answer 400 \<^verbatim>\<open>role is incorrect\<close> with no builder call;
  \<^verbatim>\<open>publisher\<close> reaches the builder as \<^verbatim>\<open>RtcRole.PUBLISHER\<close> and
  \<^verbatim>\<open>audience\<close> as \<^verbatim>\<open>RtcRole.SUBSCRIBER\<close>.
\<close>

theorem generateRTCToken_role_mapping:
  assumes "params_channel req = Some ch" and "ch \<noteq> []"
    and "params_uid req = Some u" and "u \<noteq> []"
  shows "(params_role req \<noteq> Some ''publisher'' \<and> params_role req \<noteq> Some ''audience'' \<longrightarrow>
            generateRTCToken e sign now_ms req =
              (status_json cors_header 400 [(''error'', ''role is incorrect'')], [])) \<and>
         (params_role req = Some ''publisher'' \<and>
          (params_tokentype req = Some ''userAccount'' \<or> params_tokentype req = Some ''uid'') \<longrightarrow>
            map call_role (snd (generateRTCToken e sign now_ms req)) = [PUBLISHER]) \<and>
         (params_role req = Some ''audience'' \<and>
          (params_tokentype req = Some ''userAccount'' \<or> params_tokentype req = Some ''uid'') \<longrightarrow>
            map call_role (snd (generateRTCToken e sign now_ms req)) = [SUBSCRIBER])"
  using assms by (auto simp: generateRTCToken_def Let_def split: option.splits)

theorem generateRTCToken_role_mapping_witness:
  "generateRTCToken example_env example_signer 1700000000123
       (example_request\<lparr>params_role := Some ''moderator''\<rparr>) =
     (status_json cors_header 400 [(''error'', ''role is incorrect'')], []) \<and>
   map call_role (snd (generateRTCToken example_env example_signer 1700000000123 example_request))
     = [PUBLISHER] \<and>
   map call_role (snd (generateRTCToken example_env example_signer 1700000000123
       (example_request\<lparr>params_role := Some ''audience''\<rparr>))) = [SUBSCRIBER]"
proof -
  have moderator: "generateRTCToken example_env example_signer 1700000000123
       (example_request\<lparr>params_role := Some ''moderator''\<rparr>) =
     (status_json cors_header 400 [(''error'', ''role is incorrect'')], [])"
    using generateRTCToken_role_mapping
      [of "example_request\<lparr>params_role := Some ''moderator''\<rparr>" "''room1''" "''42''"
          example_env example_signer 1700000000123]
    by (simp add: example_request_def)
  have publisher: "map call_role
       (snd (generateRTCToken example_env example_signer 1700000000123 example_request))
     = [PUBLISHER]"
    using generateRTCToken_role_mapping
      [of example_request "''room1''" "''42''" example_env example_signer 1700000000123]
    by (simp add: example_request_def)
  have audience: "map call_role (snd (generateRTCToken example_env example_signer 1700000000123
       (example_request\<lparr>params_role := Some ''audience''\<rparr>))) = [SUBSCRIBER]"
    using generateRTCToken_role_mapping
      [of "example_request\<lparr>params_role := Some ''audience''\<rparr>" "''room1''" "''42''"
          example_env example_signer 1700000000123]
    by (simp add: example_request_def)
  from moderator publisher audience show ?thesis by simp
qed

subsection \<open>C7: the order of the checks\<close>

text \<open>
  C7. \<open>generateRTCToken\<close> looks at the channel, then the subject, then the role, then the
  token type: for every request that violates at least one of these preconditions (several
  at once included) the answer is the single 400 error of the first one violated in that
  order, and no builder is called.
\<close>

theorem generateRTCToken_first_violation_wins:
  assumes "violated_preconditions req \<noteq> []"
  shows "generateRTCToken e sign now_ms req =
           (status_json cors_header 400
              [(''error'', error_message (hd (violated_preconditions req)))], [])"
  using assms
  by (auto simp: generateRTCToken_def violated_preconditions_def js_not_def
      split: option.splits if_splits)

theorem generateRTCToken_first_violation_wins_witness:
  "violated_preconditions
       (example_request\<lparr>params_uid := Some [], params_role := None,
          params_tokentype := Some ''account''\<rparr>) =
     [MissingSubject, InvalidRole, InvalidTokenType] \<and>
   generateRTCToken example_env example_signer 1700000000123
       (example_request\<lparr>params_uid := Some [], params_role := None,
          params_tokentype := Some ''account''\<rparr>) =
     (status_json cors_header 400 [(''error'', ''uid is required'')], [])"
proof -
  have v: "violated_preconditions
       (example_request\<lparr>params_uid := Some [], params_role := None,
          params_tokentype := Some ''account''\<rparr>) =
     [MissingSubject, InvalidRole, InvalidTokenType]"
    by (simp add: violated_preconditions_def example_request_def js_not_def)
  then have "violated_preconditions
       (example_request\<lparr>params_uid := Some [], params_role := None,
          params_tokentype := Some ''account''\<rparr>) \<noteq> []"
    by simp
  from generateRTCToken_first_violation_wins [OF this, of example_env example_signer 1700000000123]
  show ?thesis
    by (simp add: v)
qed

subsection \<open>C8: the privilege window\<close>

text \<open>
  C8, as stated, fails twice over. No handler requires the ttl to be positive: at
  \<^verbatim>\<open>GET /rtm/42?expiry=-5\<close> with the clock at 1700000000123 ms, \<open>generateRTMToken\<close>
  answers 200 with a token whose expiry, 1699999995, lies five seconds before the issue
  time 1700000000: the ttl is -5. And a supplied value that is no number is neither refused
  nor replaced by the default: at \<^verbatim>\<open>GET /rtm/42?expiry=abc\<close> the handler answers 200
  with a token whose expiry is \<^verbatim>\<open>NaN\<close>, not the issue time plus any ttl.
\<close>

theorem privilege_window_negative_ttl_counterexample:
  "generateRTMToken example_env example_signer 1700000000123
       (example_request\<lparr>query_expiry := Some ''-5''\<rparr>) =
     (json cors_header [(''rtmToken'', ''token'')],
      [BuildToken (Some ''appid'') (Some ''cert'') (UidString ''42'') Rtm_User (Num 1699999995)]) \<and>
   currentTime 1700000000123 = 1700000000 \<and>
   expireTime (Some ''-5'') = Num (- 5) \<and>
   generateRTMToken example_env example_signer 1700000000123
       (example_request\<lparr>query_expiry := Some ''abc''\<rparr>) =
     (json cors_header [(''rtmToken'', ''token'')],
      [BuildToken (Some ''appid'') (Some ''cert'') (UidString ''42'') Rtm_User NaN])"
  by (simp add: generateRTMToken_def example_eval Let_def privilegeExpireTime_def
      expireTime_def currentTime_def parseInt_eval)

text \<open>
  C8, amended: for every token that a handler of index.js composes (the answer is 200) from
  a ttl that is omitted, empty, or a decimal integer of at most fifteen digits with an
  optional minus sign, a builder was called and the privilege window of every builder call
  satisfies expiresAt = issuedAt + ttl, where the ttl is the value the caller supplied or
  the default of 3600 seconds; the ttl need not be positive. The clock reading is a time
  value of the language, at most 8640000000000000 ms either side of the epoch.
\<close>

theorem privilege_window_of_composed_token:
  assumes "h = generateRTCToken \<or> h = generateRTMToken \<or> h = generateRTEToken"
    and "fst (h e sign now_ms req) = Sent r" and "status r = 200"
    and "\<bar>now_ms\<bar> \<le> 8640000000000000"
  shows "snd (h e sign now_ms req) \<noteq> [] \<and>
         (js_not (query_expiry req) \<longrightarrow>
            (\<forall>c \<in> set (snd (h e sign now_ms req)).
               call_expiry c = Num (currentTime now_ms + 3600))) \<and>
         (\<forall>s ttl. query_expiry req = Some s \<and> supplied_ttl s = Some ttl \<longrightarrow>
            (\<forall>c \<in> set (snd (h e sign now_ms req)).
               call_expiry c = Num (currentTime now_ms + ttl)))"
proof -
  have calls: "snd (h e sign now_ms req) \<noteq> []"
    using assms(1-3)
    by (auto simp: generateRTCToken_ok_calls generateRTMToken_ok_calls generateRTEToken_ok_calls)
  have expiry: "call_expiry c = privilegeExpireTime now_ms (query_expiry req)"
    if "c \<in> set (snd (h e sign now_ms req))" for c
    using assms(1) that
    by (auto simp: generateRTCToken_call_expiry generateRTMToken_call_expiry
        generateRTEToken_call_expiry)
  have default: "call_expiry c = Num (currentTime now_ms + 3600)"
    if "js_not (query_expiry req)" and "c \<in> set (snd (h e sign now_ms req))" for c
    using that by (simp add: expiry privilegeExpireTime_default currentTime_def)
  have supplied: "call_expiry c = Num (currentTime now_ms + ttl)"
    if "query_expiry req = Some s" and "supplied_ttl s = Some ttl"
      and "c \<in> set (snd (h e sign now_ms req))" for s ttl c
  proof -
    from that(2) have "s \<noteq> []" and "parseInt s = Num ttl"
      by (simp_all add: parseInt_supplied_ttl)
    with that(1) have "privilegeExpireTime now_ms (query_expiry req) = Num (now_ms div 1000 + ttl)"
      by (simp add: privilegeExpireTime_parsed)
    with that(3) show ?thesis
      by (simp add: expiry currentTime_def)
  qed
  from calls default supplied show ?thesis
    by blast
qed

theorem privilege_window_of_composed_token_witness:
  "fst (generateRTMToken example_env example_signer 1700000000123
          (example_request\<lparr>query_expiry := Some ''120''\<rparr>)) =
     json cors_header [(''rtmToken'', ''token'')] \<and>
   \<bar>1700000000123 :: int\<bar> \<le> 8640000000000000 \<and>
   supplied_ttl ''120'' = Some 120 \<and>
   map call_expiry (snd (generateRTMToken example_env example_signer 1700000000123
                      (example_request\<lparr>query_expiry := Some ''120''\<rparr>))) =
     [Num 1700000120]"
proof -
  have sent: "fst (generateRTMToken example_env example_signer 1700000000123
          (example_request\<lparr>query_expiry := Some ''120''\<rparr>)) =
     Sent \<lparr>headers = cors_header, status = 200, body = [(''rtmToken'', ''token'')]\<rparr>"
    by (simp add: generateRTMToken_def example_eval Let_def json_def status_json_def)
  have supplied: "supplied_ttl ''120'' = Some 120"
    by (simp add: supplied_ttl_def isDigit_def digitValue_def)
  have ok: "status \<lparr>headers = cors_header, status = 200, body = [(''rtmToken'', ''token'')]\<rparr> = 200"
    by simp
  have clock: "\<bar>1700000000123 :: int\<bar> \<le> 8640000000000000"
    by simp
  from privilege_window_of_composed_token [of generateRTMToken, OF _ sent ok clock]
  have "\<forall>c \<in> set (snd (generateRTMToken example_env example_signer 1700000000123
                      (example_request\<lparr>query_expiry := Some ''120''\<rparr>))).
      call_expiry c = Num 1700000120"
    using supplied
    by (simp add: example_request_def currentTime_def)
  moreover have "length (snd (generateRTMToken example_env example_signer 1700000000123
                      (example_request\<lparr>query_expiry := Some ''120''\<rparr>))) = 1"
    by (simp add: generateRTMToken_def example_eval Let_def)
  ultimately have "map call_expiry (snd (generateRTMToken example_env example_signer 1700000000123
                      (example_request\<lparr>query_expiry := Some ''120''\<rparr>))) =
     [Num 1700000120]"
    by (cases "snd (generateRTMToken example_env example_signer 1700000000123
                      (example_request\<lparr>query_expiry := Some ''120''\<rparr>))") auto
  with supplied sent clock show ?thesis
    by (simp add: json_def status_json_def)
qed

subsection \<open>C9: the combined composition ignores the token type\<close>



subsection \<open>C10: the second server and an absent uid\<close>

text \<open>
  C10, as stated, fails: the handler signs only when both credentials are set. At
  \<^verbatim>\<open>GET /rtcToken?channelName=room1\<close> in a process with neither variable set, it answers
  500 and calls no builder.
\<close>

theorem rtcToken_missing_credential_counterexample:
  "rtcToken no_env example_signer 1700000000123 example_request =
     (status_json [] 500 [(''error'', ''APP_ID or APP_CERTIFICATE missing'')], [])"
  by (simp add: rtcToken_def example_eval js_not_def)

text \<open>
  C10, amended: in a process where \<^verbatim>\<open>APP_ID\<close> and \<^verbatim>\<open>APP_CERTIFICATE\<close> are both set
  and not empty, for every request with a channel name that is not empty and no uid, the
  handler calls \<^verbatim>\<open>buildTokenWithUid\<close> once, with the uid 0, the role
  \<^verbatim>\<open>RtcRole.PUBLISHER\<close> and the expiry of the issue time plus 3600, whatever else the
  request holds, and answers with what the builder returns: there is no failure for the
  missing subject.
\<close>

theorem rtcToken_absent_uid_defaults:
  assumes "query_channelName req = Some ch" and "ch \<noteq> []"
    and "query_uid req = None"
    and "APP_ID e = Some a" and "a \<noteq> []" and "APP_CERTIFICATE e = Some k" and "k \<noteq> []"
  shows "rtcToken e sign now_ms req =
           (case sign (BuildTokenWithUid (Some a) (Some k) ch (UidNumber 0) PUBLISHER
                         (Num (now_ms div 1000 + 3600))) of
              None \<Rightarrow> Threw
            | Some token \<Rightarrow> json [] [(''token'', token)],
            [BuildTokenWithUid (Some a) (Some k) ch (UidNumber 0) PUBLISHER
               (Num (now_ms div 1000 + 3600))])"
  using assms by (auto simp: rtcToken_def Let_def js_not_def split: option.splits)

theorem rtcToken_absent_uid_defaults_witness:
  "rtcToken example_env example_signer 1700000000123 example_request =
     (json [] [(''token'', ''token'')],
      [BuildTokenWithUid (Some ''appid'') (Some ''cert'') ''room1'' (UidNumber 0) PUBLISHER
         (Num 1700003600)])"
  using rtcToken_absent_uid_defaults
    [of example_request "''room1''" example_env "''appid''" "''cert''" example_signer 1700000000123]
  by (simp add: example_eval)

end
